theory Spec2Isabelle
  imports Complex_Main "HOL-Library.Sublist" "HOL-Library.AList"
begin

section \<open>Values, exceptions and effects\<close>

text \<open>
  The module \<^verbatim>\<open>langchain_google_genai/chat_models.py\<close> translates chat messages into
  the request format of the Gemini client, calls the client under a retry policy and
  translates the response back. The embedding below follows the Python text function by
  function. A leading underscore of a Python name is dropped (\<^verbatim>\<open>_parse_chat_history\<close>
  is \<open>parse_chat_history\<close>), since an Isabelle name cannot start with one.
\<close>

text \<open>
  Python floats that reach a comparison: a finite value (denoted exactly by a real), the
  two infinities and NaN. Every ordering comparison with NaN is false.
\<close>

datatype pyfloat = Fin real | PInf | NInf | NaN

fun float_le :: "pyfloat \<Rightarrow> pyfloat \<Rightarrow> bool" where
  "float_le NaN _ = False"
| "float_le _ NaN = False"
| "float_le NInf _ = True"
| "float_le _ PInf = True"
| "float_le (Fin a) (Fin b) = (a \<le> b)"
| "float_le PInf _ = False"
| "float_le _ NInf = False"

text \<open>
  Dynamically typed Python values as far as the module inspects them: strings, numbers,
  lists, dictionaries (association lists, looked up with \<open>map_of\<close>) and any other object,
  which the module only passes on (a decoded image, a protobuf message), named by a tag.
\<close>

datatype pyval =
    PyNone
  | PyStr string
  | PyInt int
  | PyFloat pyfloat
  | PyList "pyval list"
  | PyDict "(string \<times> pyval) list"
  | PyObj string

text \<open>
  The classes of \<^verbatim>\<open>google.api_core.exceptions\<close> the module names. All of them derive
  from \<^verbatim>\<open>GoogleAPIError\<close>; \<open>OtherGoogleAPIError\<close> stands for that base class and for every
  subclass the module does not name.
\<close>

datatype api_class =
    ResourceExhausted
  | ServiceUnavailable
  | FailedPrecondition
  | InvalidArgument
  | OtherGoogleAPIError

text \<open>
  A part of a response (\<^verbatim>\<open>genai\<close> \<^verbatim>\<open>Part\<close>) as \<^verbatim>\<open>_parts_to_content\<close> reads it: the
  attribute \<^verbatim>\<open>text\<close>, which the code compares with \<^verbatim>\<open>None\<close>, and the attribute
  \<^verbatim>\<open>inline_data\<close>, which the code tests for truth (\<open>None\<close> is a false value). A part
  of the client always reads a string for \<^verbatim>\<open>text\<close>, the empty string when it holds no
  text; the option is there because the code makes the comparison.
\<close>

record part =
  "text" :: "string option"
  inline_data :: "string option"

text \<open>
  An exception is its class and its message. A message built by an f-string is kept as the
  list of its pieces, the literal ones (\<open>S\<close>) and the interpolated values (a Python value, a
  number, a part of a response, an exception), so that no formatting of Python objects
  has to be invented. The exceptions are instances of \<^verbatim>\<open>Exception\<close>; \<open>OtherException\<close>
  is any class the module does not name.
\<close>

text \<open>
  Modelled from the spec: \<^verbatim>\<open>ChatGoogleGenerativeAIError\<close> derives from
  \<^verbatim>\<open>GoogleGenerativeAIError\<close> of \<^verbatim>\<open>langchain_google_genai._common\<close>, whose declaration is
  not among the sources; the spec calls the wrapped error domain-specific and never
  retried, so the class is taken to be an \<^verbatim>\<open>Exception\<close> that is not a \<^verbatim>\<open>GoogleAPIError\<close>.
\<close>

datatype frag =
    S string
  | V pyval
  | N nat
  | P part
  | E exc
and exc =
    GoogleAPIError api_class string
  | ValueError "frag list"
  | ChatGoogleGenerativeAIError "frag list"
  | KeyError string
  | IndexError string
  | AttributeError string
  | TypeError string
  | OtherException string

text \<open>
  The content of a message, \<^verbatim>\<open>Union[str, List[Union[str, dict]]]\<close>: a string, or a list
  of values.
\<close>

datatype content = Text string | Parts "pyval list"

text \<open>
  What the Response Translator builds. The classes to instantiate are arguments of
  \<^verbatim>\<open>_response_to_result\<close> (message classes for a final result, chunk classes for a
  stream), so a built object records its class. \<open>msg_role\<close> is the \<^verbatim>\<open>role\<close> argument,
  given to \<^verbatim>\<open>chat_msg_t\<close> only.
\<close>

datatype msg_t =
    AIMessage_t | HumanMessage_t | ChatMessage_t
  | AIMessageChunk_t | HumanMessageChunk_t | ChatMessageChunk_t

datatype gen_t = ChatGeneration | ChatGenerationChunk

record out_message =
  msg_type :: msg_t
  msg_content :: content
  msg_role :: "string option"

record generation =
  gen_type :: gen_t
  gen_message :: out_message
  generation_info :: "(string \<times> pyval) list"

record chat_result =
  generations :: "generation list"
  llm_output :: "(string \<times> pyval) list"

text \<open>
  What a call does besides returning: records written to the module's logger, the call of
  \<^verbatim>\<open>genai.configure\<close>, sleeps of the retry loop (in seconds), calls of the backend
  (numbered from 1), generations yielded by a stream and handed to the observer and, to
  make the order of the translation observable, each entry into \<^verbatim>\<open>_convert_to_parts\<close>.
\<close>

datatype level = DEBUG | WARNING

datatype event =
    Log level "frag list"
  | Configure string "string option" "pyval option"
  | Sleep nat
  | Send nat
  | Yield generation
  | New_token generation
  | Convert content

text \<open>
  A computation yields the events it caused, in order, and either the exception it raised
  (\<open>Inl\<close>) or its value (\<open>Inr\<close>).
\<close>

type_synonym 'a res = "event list \<times> (exc + 'a)"

definition ok :: "'a \<Rightarrow> 'a res" where
  "ok x = ([], Inr x)"

definition raise :: "exc \<Rightarrow> 'a res" where
  "raise e = ([], Inl e)"

definition emit :: "event \<Rightarrow> unit res" where
  "emit ev = ([ev], Inr ())"

definition and_then :: "'a res \<Rightarrow> ('a \<Rightarrow> 'b res) \<Rightarrow> 'b res" where
  "and_then m f =
     (case m of
        (evs, Inl e) \<Rightarrow> (evs, Inl e)
      | (evs, Inr x) \<Rightarrow> (case f x of (evs', r) \<Rightarrow> (evs @ evs', r)))"

section \<open>Part Converter and History Translator\<close>

text \<open>
  A message: which of the three classes \<^verbatim>\<open>SystemMessage\<close>, \<^verbatim>\<open>AIMessage\<close>,
  \<^verbatim>\<open>HumanMessage\<close> it is an instance of (the classes of \<^verbatim>\<open>langchain_core\<close> are
  disjoint; chunk classes are instances of their base class), what \<^verbatim>\<open>type(message)\<close>
  prints, and its content, a string or a list.
\<close>

datatype kind = SystemMessage | AIMessage | HumanMessage | OtherMessage

datatype message = Message (kind: kind) (type_repr: string) (content: content)

record turn =
  role :: string
  parts :: "pyval list"

text \<open>
  \<^verbatim>\<open>_url_to_pil\<close> reads the network and the file system; it is a parameter \<open>U\<close> of the
  model, giving for an image source the decoded image or the exception raised.
\<close>

type_synonym loader = "pyval \<Rightarrow> exc + pyval"

definition load_image :: "loader \<Rightarrow> pyval \<Rightarrow> pyval res" where
  "load_image U img_url =
     (case U img_url of
        Inl e \<Rightarrow> raise e
      | Inr img \<Rightarrow> ok (PyDict [(''inline_data'', img)]))"

text \<open>
  The body of the \<^verbatim>\<open>for part in content\<close> loop: the part appended, or the exception.
  In \<open>convert_loop\<close> the accumulator \<open>acc\<close> is the local list \<^verbatim>\<open>parts\<close>.
\<close>

fun convert_part :: "loader \<Rightarrow> pyval \<Rightarrow> pyval res" where
  "convert_part U (PyStr s) = ok (PyDict [(''text'', PyStr s)])"
| "convert_part U (PyDict d) =
     (case map_of d ''type'' of
        Some t \<Rightarrow>
          if t = PyStr ''text'' then
            (case map_of d ''text'' of
               None \<Rightarrow> raise (KeyError ''text'')
             | Some v \<Rightarrow> ok (PyDict [(''text'', v)]))
          else if t = PyStr ''image_url'' then
            (case map_of d ''image_url'' of
               None \<Rightarrow> raise (KeyError ''image_url'')
             | Some (PyDict u) \<Rightarrow>
                 (case map_of u ''url'' of
                    None \<Rightarrow> raise (ValueError [S ''Unrecognized message image format: '', V (PyDict u)])
                  | Some url \<Rightarrow> load_image U url)
             | Some img_url \<Rightarrow> load_image U img_url)
          else raise (ValueError [S ''Unrecognized message part type: '', V t])
      | None \<Rightarrow>
          and_then
            (emit (Log WARNING [S ''Unrecognized message part format. Assuming it's a text part.'']))
            (\<lambda>_. ok (PyDict d)))"
| "convert_part U _ =
     raise (ChatGoogleGenerativeAIError [S ''Gemini only supports text and inline_data parts.''])"

fun convert_loop :: "loader \<Rightarrow> pyval list \<Rightarrow> pyval list \<Rightarrow> pyval list res" where
  "convert_loop U [] acc = ok acc"
| "convert_loop U (p # ps) acc =
     and_then (convert_part U p) (\<lambda>q. convert_loop U ps (acc @ [q]))"

definition convert_to_parts :: "loader \<Rightarrow> content \<Rightarrow> pyval list res" where
  "convert_to_parts U raw_content =
     and_then (emit (Convert raw_content))
       (\<lambda>_. convert_loop U (case raw_content of Text s \<Rightarrow> [PyStr s] | Parts ps \<Rightarrow> ps) [])"

definition system_not_supported :: string where
  "system_not_supported =
     ''SystemMessages are not yet supported!\<newline>\<newline>'' @
     ''To automatically convert the leading SystemMessage to a HumanMessage,\<newline>'' @
     ''set  `convert_system_message_to_human` to True. Example:\<newline>\<newline>'' @
     ''llm = ChatGoogleGenerativeAI(model='' @ [CHR 0x22] @ ''gemini-pro'' @ [CHR 0x22] @
     '', convert_system_message_to_human=True)\<newline>''"

definition system_not_followed :: string where
  "system_not_followed =
     ''SystemMessage should be followed by a HumanMessage and not by AIMessage.''"

definition unexpected_message :: "message \<Rightarrow> nat \<Rightarrow> exc" where
  "unexpected_message m i =
     ValueError [S ''Unexpected message with type '', S (type_repr m),
                 S '' at the position '', N i, S ''.'']"

text \<open>
  The loop of \<^verbatim>\<open>_parse_chat_history\<close>: \<open>i\<close> is the index \<^verbatim>\<open>enumerate\<close> gives,
  \<open>raw_system_message\<close> and \<open>messages\<close> are the two local variables.
\<close>

fun parse_loop ::
  "loader \<Rightarrow> bool \<Rightarrow> nat \<Rightarrow> message list \<Rightarrow> message option \<Rightarrow> turn list \<Rightarrow> turn list res"
where
  "parse_loop U flag i [] raw_system_message messages = ok messages"
| "parse_loop U flag i (m # rest) raw_system_message messages =
     (if i = 0 \<and> kind m = SystemMessage \<and> \<not> flag then
        raise (ValueError [S system_not_supported])
      else if i = 0 \<and> kind m = SystemMessage then
        parse_loop U flag (Suc i) rest (Some m) messages
      else
        and_then
          (if kind m = AIMessage then ok ''model''
           else if kind m = HumanMessage then ok ''user''
           else raise (unexpected_message m i))
          (\<lambda>role.
             and_then (convert_to_parts U (content m))
               (\<lambda>parts.
                  case raw_system_message of
                    Some sys \<Rightarrow>
                      if role = ''model'' then raise (ValueError [S system_not_followed])
                      else
                        and_then (convert_to_parts U (content sys))
                          (\<lambda>sys_parts.
                             parse_loop U flag (Suc i) rest None
                               (messages @ [\<lparr>role = role, parts = sys_parts @ parts\<rparr>]))
                  | None \<Rightarrow>
                      parse_loop U flag (Suc i) rest None
                        (messages @ [\<lparr>role = role, parts = parts\<rparr>]))))"

definition parse_chat_history :: "loader \<Rightarrow> message list \<Rightarrow> bool \<Rightarrow> turn list res" where
  "parse_chat_history U input_messages convert_system_message_to_human =
     parse_loop U convert_system_message_to_human 0 input_messages None []"

section \<open>Response Translator\<close>

text \<open>The loop of \<^verbatim>\<open>_parts_to_content\<close>; \<open>messages\<close> is its local list.\<close>

fun parts_loop :: "part list \<Rightarrow> pyval list \<Rightarrow> content res" where
  "parts_loop [] messages = ok (Parts messages)"
| "parts_loop (p # ps) messages =
     (case text p of
        Some t \<Rightarrow> parts_loop ps (messages @ [PyDict [(''type'', PyStr ''text''), (''text'', PyStr t)]])
      | None \<Rightarrow> raise (ChatGoogleGenerativeAIError [S ''Unexpected part type. '', P p]))"

definition parts_to_content :: "part list \<Rightarrow> content res" where
  "parts_to_content ps =
     (if length ps = 1 \<and> text (ps ! 0) \<noteq> None \<and> inline_data (ps ! 0) = None then
        ok (Text (the (text (ps ! 0))))
      else if ps = [] then
        and_then (emit (Log WARNING [S ''Gemini produced an empty response.'']))
          (\<lambda>_. ok (Text []))
      else parts_loop ps [])"

text \<open>
  A candidate and a response as \<^verbatim>\<open>_response_to_result\<close> reads them. An attribute the
  code tests for truth is an option, \<open>None\<close> standing for a false value:
  \<open>finish_reason\<close> holds the enum's \<^verbatim>\<open>name\<close>. \<^verbatim>\<open>to_dict\<close> of the protobuf classes is
  the parameter \<open>D\<close>; its first argument is \<^verbatim>\<open>use_integers_for_enums\<close> (default true).
\<close>

datatype candidate_content = Content (content_role: string) (content_parts: "part list")

record candidate =
  cand_content :: candidate_content
  finish_reason :: "string option"
  safety_ratings :: "pyval list"

record response =
  prompt_feedback :: "pyval option"
  candidates :: "candidate list"

type_synonym to_dict = "bool \<Rightarrow> pyval \<Rightarrow> exc + pyval"

fun ratings_loop :: "to_dict \<Rightarrow> pyval list \<Rightarrow> pyval list \<Rightarrow> pyval list res" where
  "ratings_loop D [] acc = ok acc"
| "ratings_loop D (rating # rs) acc =
     (case D True rating of
        Inl e \<Rightarrow> raise e
      | Inr d \<Rightarrow> ratings_loop D rs (acc @ [d]))"

definition role_map :: "msg_t \<Rightarrow> msg_t \<Rightarrow> (string \<times> msg_t) list" where
  "role_map ai_msg_t human_msg_t = [(''model'', ai_msg_t), (''user'', human_msg_t)]"

fun candidates_loop ::
  "to_dict \<Rightarrow> msg_t \<Rightarrow> msg_t \<Rightarrow> msg_t \<Rightarrow> gen_t \<Rightarrow> candidate list \<Rightarrow> generation list
   \<Rightarrow> generation list res"
where
  "candidates_loop D ai_msg_t human_msg_t chat_msg_t generation_t [] gens = ok gens"
| "candidates_loop D ai_msg_t human_msg_t chat_msg_t generation_t (c # cs) gens =
     and_then (parts_to_content (content_parts (cand_content c)))
       (\<lambda>parts_content.
          and_then
            (case map_of (role_map ai_msg_t human_msg_t) (content_role (cand_content c)) of
               None \<Rightarrow>
                 and_then
                   (emit (Log WARNING [S ''Unrecognized role: '', S (content_role (cand_content c)),
                                       S ''. Treating as a ChatMessage.'']))
                   (\<lambda>_. ok \<lparr>msg_type = chat_msg_t, msg_content = parts_content,
                             msg_role = Some (content_role (cand_content c))\<rparr>)
             | Some t \<Rightarrow> ok \<lparr>msg_type = t, msg_content = parts_content, msg_role = None\<rparr>)
            (\<lambda>msg.
               and_then
                 (if safety_ratings c \<noteq> [] then
                    and_then (ratings_loop D (safety_ratings c) [])
                      (\<lambda>ds. ok [(''safety_ratings'', PyList ds)])
                  else ok [])
                 (\<lambda>ratings_info.
                    candidates_loop D ai_msg_t human_msg_t chat_msg_t generation_t cs
                      (gens @ [\<lparr>gen_type = generation_t, gen_message = msg,
                                generation_info =
                                  (case finish_reason c of
                                     Some name \<Rightarrow> [(''finish_reason'', PyStr name)]
                                   | None \<Rightarrow> []) @ ratings_info\<rparr>]))))"

definition feedback_value :: "pyval option \<Rightarrow> pyval" where
  "feedback_value fb = (case fb of None \<Rightarrow> PyNone | Some v \<Rightarrow> v)"

definition response_to_result ::
  "to_dict \<Rightarrow> response \<Rightarrow> msg_t \<Rightarrow> msg_t \<Rightarrow> msg_t \<Rightarrow> gen_t \<Rightarrow> chat_result res"
where
  "response_to_result D resp ai_msg_t human_msg_t chat_msg_t generation_t =
     and_then
       (case prompt_feedback resp of
          None \<Rightarrow> ok []
        | Some fb \<Rightarrow>
            (case D False fb of
               Inr d \<Rightarrow> ok [(''prompt_feedback'', d)]
             | Inl e \<Rightarrow>
                 and_then (emit (Log DEBUG [S ''Unable to convert prompt_feedback to dict: '', E e]))
                   (\<lambda>_. ok [])))
       (\<lambda>out.
          and_then
            (candidates_loop D ai_msg_t human_msg_t chat_msg_t generation_t (candidates resp) [])
            (\<lambda>gens.
               and_then
                 (if candidates resp = [] then
                    and_then
                      (emit (Log WARNING
                         [S ''Gemini produced an empty response. Continuing with empty message\<newline>Feedback: '',
                          V (feedback_value (prompt_feedback resp))]))
                      (\<lambda>_. ok [\<lparr>gen_type = generation_t,
                                 gen_message = \<lparr>msg_type = ai_msg_t, msg_content = Text [],
                                                msg_role = None\<rparr>,
                                 generation_info = []\<rparr>])
                  else ok gens)
                 (\<lambda>gens'. ok \<lparr>generations = gens', llm_output = out\<rparr>)))"

section \<open>Resilient Invoker\<close>

text \<open>
  \<^verbatim>\<open>_create_retry_decorator\<close> configures the \<^verbatim>\<open>tenacity\<close> library:
  \<^verbatim>\<open>stop_after_attempt(max_retries)\<close> stops when the attempt number has reached
  \<open>max_retries\<close>; \<^verbatim>\<open>wait_exponential(multiplier, min, max)\<close> waits
  \<^verbatim>\<open>max(max(0, min), min(multiplier * 2 ** (attempt_number - 1), max))\<close> seconds after
  the attempt with that number; \<^verbatim>\<open>retry_if_exception_type(C)\<close> holds of a failed attempt
  whose exception is an instance of \<open>C\<close>, and \<open>|\<close> is their disjunction; with
  \<^verbatim>\<open>reraise=True\<close> the exception of the last attempt is raised when the loop stops.
\<close>

definition multiplier :: nat where "multiplier = 2"
definition min_seconds :: nat where "min_seconds = 1"
definition max_seconds :: nat where "max_seconds = 60"
definition max_retries :: nat where "max_retries = 10"

definition wait_exponential :: "nat \<Rightarrow> nat" where
  "wait_exponential attempt_number =
     max (max 0 min_seconds) (min (multiplier * 2 ^ (attempt_number - 1)) max_seconds)"

fun is_GoogleAPIError :: "exc \<Rightarrow> bool" where
  "is_GoogleAPIError (GoogleAPIError c m) = True"
| "is_GoogleAPIError _ = False"

fun isinstance :: "exc \<Rightarrow> api_class \<Rightarrow> bool" where
  "isinstance (GoogleAPIError c m) c' = (c = c' \<and> c' \<noteq> OtherGoogleAPIError)"
| "isinstance _ c' = False"

text \<open>The attribute \<^verbatim>\<open>message\<close> of an exception of \<^verbatim>\<open>google.api_core\<close>.\<close>

fun exc_message :: "exc \<Rightarrow> string" where
  "exc_message (GoogleAPIError c m) = m"
| "exc_message _ = []"

definition retry_if :: "exc \<Rightarrow> bool" where
  "retry_if e =
     (isinstance e ResourceExhausted \<or> isinstance e ServiceUnavailable \<or> is_GoogleAPIError e)"

text \<open>
  The loop of \<^verbatim>\<open>tenacity\<close> around the decorated function \<open>fn\<close>, which is given the
  number of the attempt. A result is returned; an exception the predicate rejects is
  raised; otherwise the loop stops at \<open>max_retries\<close> with that exception, or logs
  (\<^verbatim>\<open>before_sleep_log\<close>, whose record is kept by the wait and the exception it names),
  sleeps and tries again. The attempt number starts at 1.
\<close>

function retrying :: "(nat \<Rightarrow> 'a res) \<Rightarrow> nat \<Rightarrow> 'a res" where
  "retrying fn attempt_number =
     (case fn attempt_number of
        (evs, Inr result) \<Rightarrow> (evs, Inr result)
      | (evs, Inl e) \<Rightarrow>
          if \<not> retry_if e then (evs, Inl e)
          else if attempt_number \<ge> max_retries then (evs, Inl e)
          else
            (case retrying fn (Suc attempt_number) of
               (evs', r) \<Rightarrow>
                 (evs @ [Log WARNING [S ''Retrying in '', N (wait_exponential attempt_number),
                                      S '' seconds as it raised '', E e, S ''.''],
                         Sleep (wait_exponential attempt_number)] @ evs', r)))"
  by pat_completeness auto
termination
  by (relation "measure (\<lambda>(fn, attempt_number). max_retries - attempt_number)") auto

declare retrying.simps [simp del]

definition location_not_supported :: string where
  "location_not_supported =
     ''Your location is not supported by google-generativeai '' @
     ''at the moment. Try to use ChatVertexAI LLM from '' @
     ''langchain_google_vertexai.''"

text \<open>
  The decorated inner functions. \<open>generation_method n\<close> is the outcome of the \<open>n\<close>-th call
  of the backend method. The result is an option because the synchronous body can reach
  its end without a \<^verbatim>\<open>return\<close>, which in Python returns \<^verbatim>\<open>None\<close>.
\<close>

definition chat_attempt :: "(nat \<Rightarrow> exc + 'r) \<Rightarrow> nat \<Rightarrow> 'r option res" where
  "chat_attempt generation_method n =
     and_then (emit (Send n))
       (\<lambda>_. case generation_method n of
               Inr r \<Rightarrow> ok (Some r)
             | Inl e \<Rightarrow>
                 if isinstance e FailedPrecondition then
                   (if sublist ''location is not supported'' (exc_message e) then
                      raise (ValueError [S location_not_supported])
                    else ok None)
                 else if isinstance e InvalidArgument then
                   raise (ChatGoogleGenerativeAIError
                            [S ''Invalid argument provided to Gemini: '', E e])
                 else raise e)"

definition chat_with_retry :: "(nat \<Rightarrow> exc + 'r) \<Rightarrow> 'r option res" where
  "chat_with_retry generation_method = retrying (chat_attempt generation_method) 1"

definition achat_attempt :: "(nat \<Rightarrow> exc + 'r) \<Rightarrow> nat \<Rightarrow> 'r option res" where
  "achat_attempt generation_method n =
     and_then (emit (Send n))
       (\<lambda>_. case generation_method n of
               Inr r \<Rightarrow> ok (Some r)
             | Inl e \<Rightarrow>
                 if isinstance e InvalidArgument then
                   raise (ChatGoogleGenerativeAIError
                            [S ''Invalid argument provided to Gemini: '', E e])
                 else raise e)"

definition achat_with_retry :: "(nat \<Rightarrow> exc + 'r) \<Rightarrow> 'r option res" where
  "achat_with_retry generation_method = retrying (achat_attempt generation_method) 1"

section \<open>Chat Orchestrator\<close>

text \<open>
  The fields of \<^verbatim>\<open>ChatGoogleGenerativeAI\<close>: the dictionary \<^verbatim>\<open>values\<close> of the validator
  and \<^verbatim>\<open>self\<close> of the methods. The field \<^verbatim>\<open>n\<close> is named by its alias
  \<^verbatim>\<open>candidate_count\<close>; \<open>client\<close> holds the model name the client was built for.
\<close>

record config =
  model :: "string option"
  max_output_tokens :: "int option"
  client :: "string option"
  google_api_key :: "string option"
  temperature :: "pyfloat option"
  top_k :: "int option"
  top_p :: "pyfloat option"
  candidate_count :: int
  convert_system_message_to_human :: bool
  client_options :: "pyval option"
  transport :: "string option"

text \<open>
  Modelled from the spec: \<^verbatim>\<open>get_from_dict_or_env\<close> of \<^verbatim>\<open>langchain_core.utils\<close> is not
  among the sources. The spec: the loader ``resolves an API key from explicit value or a
  named environment variable; fails if neither is present''. \<open>env\<close> is the value of the
  environment variable \<^verbatim>\<open>GOOGLE_API_KEY\<close>.
\<close>

definition get_from_dict_or_env :: "config \<Rightarrow> string option \<Rightarrow> exc + string" where
  "get_from_dict_or_env values env =
     (case google_api_key values of
        Some k \<Rightarrow> Inr k
      | None \<Rightarrow>
          (case env of
             Some k \<Rightarrow> Inr k
           | None \<Rightarrow> Inl (ValueError [S ''Did not find google_api_key''])))"

definition validate_environment :: "string option \<Rightarrow> config \<Rightarrow> config res" where
  "validate_environment env values =
     (case get_from_dict_or_env values env of
        Inl e \<Rightarrow> raise e
      | Inr api_key \<Rightarrow>
          and_then (emit (Configure api_key (transport values) (client_options values)))
            (\<lambda>_.
               if (case temperature values of
                     Some t \<Rightarrow> \<not> (float_le (Fin 0) t \<and> float_le t (Fin 1))
                   | None \<Rightarrow> False)
               then raise (ValueError [S ''temperature must be in the range [0.0, 1.0]''])
               else if (case top_p values of
                          Some p \<Rightarrow> \<not> (float_le (Fin 0) p \<and> float_le p (Fin 1))
                        | None \<Rightarrow> False)
               then raise (ValueError [S ''top_p must be in the range [0.0, 1.0]''])
               else if (case top_k values of Some k \<Rightarrow> k \<le> 0 | None \<Rightarrow> False)
               then raise (ValueError [S ''top_k must be positive''])
               else
                 (case model values of
                    None \<Rightarrow> raise (KeyError ''model'')
                  | Some name \<Rightarrow> ok (values\<lparr>client := Some name\<rparr>))))"

type_synonym params = "(string \<times> pyval) list"

text \<open>\<^verbatim>\<open>{**a, **b}\<close>: the keys of \<open>a\<close> in their order, overwritten by \<open>b\<close>, then the new keys.\<close>

definition dict_merge :: "params \<Rightarrow> params \<Rightarrow> params" where
  "dict_merge a b = fold (\<lambda>(k, v). AList.update k v) b a"

definition prepare_params :: "config \<Rightarrow> string list option \<Rightarrow> params \<Rightarrow> exc + params" where
  "prepare_params self stop kwargs =
     (let gen_config =
            List.map_filter (\<lambda>(k, v). map_option (Pair k) v)
              [(''candidate_count'', Some (PyInt (candidate_count self))),
               (''temperature'', map_option PyFloat (temperature self)),
               (''stop_sequences'', map_option (\<lambda>ss. PyList (map PyStr ss)) stop),
               (''max_output_tokens'', map_option PyInt (max_output_tokens self)),
               (''top_k'', map_option PyInt (top_k self)),
               (''top_p'', map_option PyFloat (top_p self))]
      in case map_of kwargs ''generation_config'' of
           None \<Rightarrow> Inr ((''generation_config'', PyDict gen_config) # kwargs)
         | Some (PyDict g) \<Rightarrow>
             Inr ((''generation_config'', PyDict (dict_merge gen_config g))
                  # AList.delete ''generation_config'' kwargs)
         | Some _ \<Rightarrow> Inl (TypeError ''not a mapping''))"

text \<open>
  The chat session \<^verbatim>\<open>client.start_chat(history=history)\<close> returns is known by the client
  and the history it was started with.
\<close>

record chat_session =
  session_client :: "string option"
  session_history :: "turn list"

definition prepare_chat ::
  "loader \<Rightarrow> config \<Rightarrow> message list \<Rightarrow> string list option \<Rightarrow> params
   \<Rightarrow> (params \<times> chat_session \<times> turn) res"
where
  "prepare_chat U self messages stop kwargs =
     (case prepare_params self stop kwargs of
        Inl e \<Rightarrow> raise e
      | Inr ps \<Rightarrow>
          and_then (parse_chat_history U messages (convert_system_message_to_human self))
            (\<lambda>history.
               if history = [] then raise (IndexError ''pop from empty list'')
               else
                 ok (ps,
                     \<lparr>session_client = client self, session_history = butlast history\<rparr>,
                     last history)))"

text \<open>
  The methods of the session are the backend: \<open>send_message\<close> and
  \<open>send_message_async\<close> give the outcome of their \<open>n\<close>-th call, a response or, with
  \<^verbatim>\<open>stream=True\<close>, the chunks of the stream, each of which arrives or raises.
\<close>

datatype reply = Response response | Chunks "(exc + response) list"

type_synonym send = "chat_session \<Rightarrow> turn \<Rightarrow> params \<Rightarrow> bool \<Rightarrow> nat \<Rightarrow> exc + reply"

text \<open>
  \<^verbatim>\<open>_response_to_result\<close> reads \<^verbatim>\<open>response.prompt_feedback\<close> first: of \<^verbatim>\<open>None\<close>, and of
  a stream object where a response is expected, the attribute is missing.
\<close>

definition translate_reply :: "to_dict \<Rightarrow> reply option \<Rightarrow> chat_result res" where
  "translate_reply D r =
     (case r of
        Some (Response resp) \<Rightarrow>
          response_to_result D resp AIMessage_t HumanMessage_t ChatMessage_t ChatGeneration
      | _ \<Rightarrow> raise (AttributeError ''prompt_feedback''))"

definition generate ::
  "send \<Rightarrow> to_dict \<Rightarrow> loader \<Rightarrow> config \<Rightarrow> message list \<Rightarrow> string list option \<Rightarrow> chat_result res"
where
  "generate send_message D U self messages stop =
     and_then (prepare_chat U self messages stop [])
       (\<lambda>(ps, chat, msg).
          and_then (chat_with_retry (send_message chat msg ps False)) (translate_reply D))"

definition agenerate ::
  "send \<Rightarrow> to_dict \<Rightarrow> loader \<Rightarrow> config \<Rightarrow> message list \<Rightarrow> string list option \<Rightarrow> chat_result res"
where
  "agenerate send_message_async D U self messages stop =
     and_then (prepare_chat U self messages stop [])
       (\<lambda>(ps, chat, msg).
          and_then (achat_with_retry (send_message_async chat msg ps False)) (translate_reply D))"

text \<open>
  The loop of \<^verbatim>\<open>_stream\<close> and \<^verbatim>\<open>_astream\<close> over the chunks. What the generator yields is
  the sequence of \<open>Yield\<close> events; \<open>run_manager\<close> says whether an observer was given.
\<close>

fun stream_loop :: "to_dict \<Rightarrow> bool \<Rightarrow> (exc + response) list \<Rightarrow> unit res" where
  "stream_loop D run_manager [] = ok ()"
| "stream_loop D run_manager (chunk # chunks) =
     (case chunk of
        Inl e \<Rightarrow> raise e
      | Inr c \<Rightarrow>
          and_then
            (response_to_result D c AIMessageChunk_t HumanMessageChunk_t ChatMessageChunk_t
               ChatGenerationChunk)
            (\<lambda>chat_result.
               case generations chat_result of
                 [] \<Rightarrow> raise (IndexError ''list index out of range'')
               | gen # _ \<Rightarrow>
                   and_then (emit (Yield gen))
                     (\<lambda>_. and_then (if run_manager then emit (New_token gen) else ok ())
                             (\<lambda>_. stream_loop D run_manager chunks))))"

definition iterate_reply :: "to_dict \<Rightarrow> bool \<Rightarrow> reply option \<Rightarrow> unit res" where
  "iterate_reply D run_manager r =
     (case r of
        Some (Chunks chunks) \<Rightarrow> stream_loop D run_manager chunks
      | _ \<Rightarrow> raise (TypeError ''object is not iterable''))"

definition stream ::
  "send \<Rightarrow> to_dict \<Rightarrow> loader \<Rightarrow> config \<Rightarrow> message list \<Rightarrow> string list option \<Rightarrow> bool \<Rightarrow> unit res"
where
  "stream send_message D U self messages stop run_manager =
     and_then (prepare_chat U self messages stop [])
       (\<lambda>(ps, chat, msg).
          and_then (chat_with_retry (send_message chat msg ps True))
            (iterate_reply D run_manager))"

definition astream ::
  "send \<Rightarrow> to_dict \<Rightarrow> loader \<Rightarrow> config \<Rightarrow> message list \<Rightarrow> string list option \<Rightarrow> bool \<Rightarrow> unit res"
where
  "astream send_message_async D U self messages stop run_manager =
     and_then (prepare_chat U self messages stop [])
       (\<lambda>(ps, chat, msg).
          and_then (achat_with_retry (send_message_async chat msg ps True))
            (iterate_reply D run_manager))"

section \<open>Example inputs\<close>

text \<open>A loader with no image to give, and the conversation of the spec's example.\<close>

definition no_images :: loader where
  "no_images src = Inl (ValueError [S ''Unable to process the provided image source: '', V src])"

definition be_terse :: message where
  "be_terse = Message SystemMessage ''SystemMessage'' (Text ''Be terse'')"

definition hi :: message where
  "hi = Message HumanMessage ''HumanMessage'' (Text ''Hi'')"

definition hello :: message where
  "hello = Message AIMessage ''AIMessage'' (Text ''Hello'')"

definition bad_content :: message where
  "bad_content = Message HumanMessage ''HumanMessage'' (Parts [PyInt 7])"

definition tool_result :: message where
  "tool_result = Message OtherMessage ''ToolMessage'' (Text ''42'')"

text \<open>A configuration that merges a leading system message, and collaborators that fail.\<close>

definition merging :: config where
  "merging = \<lparr>model = Some ''gemini-pro'', max_output_tokens = None, client = Some ''gemini-pro'',
               google_api_key = Some ''key'', temperature = None, top_k = None, top_p = None,
               candidate_count = 1, convert_system_message_to_human = True,
               client_options = None, transport = None\<rparr>"

definition unreachable :: send where
  "unreachable chat msg ps streaming n = Inl (GoogleAPIError ServiceUnavailable ''unreachable'')"

definition no_dict :: to_dict where
  "no_dict use_integers_for_enums v = Inl (TypeError ''to_dict'')"

text \<open>Backend methods for the retry loop, by the number of the call.\<close>

definition fails_once :: "nat \<Rightarrow> exc + string" where
  "fails_once n =
     (if n = 1 then Inl (GoogleAPIError ServiceUnavailable ''busy'') else Inr ''done'')"

definition fails_nine_times :: "nat \<Rightarrow> exc + string" where
  "fails_nine_times n =
     (if n < 10 then Inl (GoogleAPIError ResourceExhausted ''quota'') else Inr ''done'')"

definition always_exhausted :: "nat \<Rightarrow> exc + string" where
  "always_exhausted n = Inl (GoogleAPIError ResourceExhausted ''quota'')"

definition unsupported_location :: "nat \<Rightarrow> exc + string" where
  "unsupported_location n =
     Inl (GoogleAPIError FailedPrecondition ''User location is not supported for the API use.'')"

definition billing_disabled :: "nat \<Rightarrow> exc + string" where
  "billing_disabled n = Inl (GoogleAPIError FailedPrecondition ''Billing is not enabled.'')"

definition billing_disabled_backend :: send where
  "billing_disabled_backend chat msg ps streaming n =
     Inl (GoogleAPIError FailedPrecondition ''Billing is not enabled.'')"

text \<open>Parts and a response of the backend.\<close>

definition hello_part :: part where
  "hello_part = \<lparr>text = Some ''Hello'', inline_data = None\<rparr>"

definition world_part :: part where
  "world_part = \<lparr>text = Some ''world'', inline_data = None\<rparr>"

text \<open>A part with inline data: it holds no text, so its text reads as the empty string.\<close>

definition image_part :: part where
  "image_part = \<lparr>text = Some [], inline_data = Some ''png''\<rparr>"

text \<open>The response with one candidate of role \<^verbatim>\<open>model\<close> that has the parts given.\<close>

definition reply_of :: "part list \<Rightarrow> response" where
  "reply_of ps =
     \<lparr>prompt_feedback = None,
      candidates = [\<lparr>cand_content = Content ''model'' ps, finish_reason = None,
                     safety_ratings = []\<rparr>]\<rparr>"

definition blocked :: response where
  "blocked = \<lparr>prompt_feedback = Some (PyObj ''block_reason: SAFETY''), candidates = []\<rparr>"

text \<open>The arguments of a construction, before validation.\<close>

definition gemini_pro :: config where
  "gemini_pro = \<lparr>model = Some ''gemini-pro'', max_output_tokens = None, client = None,
                  google_api_key = Some ''key'', temperature = None, top_k = None, top_p = None,
                  candidate_count = 1, convert_system_message_to_human = False,
                  client_options = None, transport = None\<rparr>"

section \<open>Observing a trace\<close>

text \<open>The numbers of the backend calls in a trace, and the sleeps, each in order.\<close>

fun sent :: "event list \<Rightarrow> nat list" where
  "sent [] = []"
| "sent (Send n # evs) = n # sent evs"
| "sent (_ # evs) = sent evs"

fun slept :: "event list \<Rightarrow> nat list" where
  "slept [] = []"
| "slept (Sleep w # evs) = w # slept evs"
| "slept (_ # evs) = slept evs"

text \<open>
  An outcome of the backend call in one of the categories the spec calls transient:
  resource exhaustion, service unavailable, or another error of the backend API.
\<close>

fun transient_failure :: "exc + 'r \<Rightarrow> bool" where
  "transient_failure (Inl (GoogleAPIError c m)) =
     (c = ResourceExhausted \<or> c = ServiceUnavailable \<or> c = OtherGoogleAPIError)"
| "transient_failure _ = False"

section \<open>Laws of sequencing\<close>

lemma and_then_ok: "and_then (ok x) f = f x"
  by (simp add: and_then_def ok_def split: prod.splits)

lemma and_then_raise: "and_then (raise e) f = raise e"
  by (simp add: and_then_def raise_def)

lemma and_then_InrD:
  assumes "and_then m f = (evs, Inr y)"
  obtains e1 x e2 where "m = (e1, Inr x)" "f x = (e2, Inr y)" "evs = e1 @ e2"
  using assms by (auto simp: and_then_def split: prod.splits sum.splits)

section \<open>History Translator: properties\<close>

text \<open>
  C5. When the first message is a system message and
  \<^verbatim>\<open>convert_system_message_to_human\<close> is false, the translation raises the
  \<^verbatim>\<open>ValueError\<close> whose text says that system messages are not supported and how to set
  the flag. It does so whatever the messages hold and whatever the image loader would
  do, and with no event at all: \<^verbatim>\<open>_convert_to_parts\<close> was not entered for any content.
\<close>

theorem leading_system_message_rejected:
  assumes "kind m = SystemMessage"
  shows "parse_chat_history U (m # ms) False = ([], Inl (ValueError [S system_not_supported]))"
  using assms by (simp add: parse_chat_history_def raise_def)

theorem leading_system_message_rejected_witness:
  "kind be_terse = SystemMessage \<and>
   parse_chat_history no_images [be_terse, bad_content] False =
     ([], Inl (ValueError [S system_not_supported]))"
  using leading_system_message_rejected [of be_terse no_images "[bad_content]"]
  by (simp add: be_terse_def)

lemma parse_loop_plain:
  assumes "parse_loop U flag i ms None acc = (evs, Inr turns)" "0 < i"
  shows "\<exists>ts. turns = acc @ ts \<and>
           list_all2 (\<lambda>m t. (kind m = AIMessage \<and> role t = ''model'' \<or>
                              kind m = HumanMessage \<and> role t = ''user'') \<and>
                             snd (convert_to_parts U (content m)) = Inr (parts t)) ms ts"
  using assms
proof (induction ms arbitrary: i acc evs turns)
  case Nil
  then show ?case by (simp add: ok_def)
next
  case (Cons m ms)
  from Cons.prems have step:
    "and_then
       (if kind m = AIMessage then ok ''model''
        else if kind m = HumanMessage then ok ''user''
        else raise (unexpected_message m i))
       (\<lambda>r. and_then (convert_to_parts U (content m))
               (\<lambda>p. parse_loop U flag (Suc i) ms None (acc @ [\<lparr>role = r, parts = p\<rparr>])))
     = (evs, Inr turns)"
    by simp
  then obtain e1 r e2 where
    r: "(if kind m = AIMessage then ok ''model''
         else if kind m = HumanMessage then ok ''user''
         else raise (unexpected_message m i)) = (e1, Inr r)"
    and rest: "and_then (convert_to_parts U (content m))
               (\<lambda>p. parse_loop U flag (Suc i) ms None (acc @ [\<lparr>role = r, parts = p\<rparr>])) = (e2, Inr turns)"
    by (rule and_then_InrD)
  from rest obtain e3 p e4 where
    p: "convert_to_parts U (content m) = (e3, Inr p)"
    and loop: "parse_loop U flag (Suc i) ms None (acc @ [\<lparr>role = r, parts = p\<rparr>]) = (e4, Inr turns)"
    by (rule and_then_InrD)
  from r have rk: "kind m = AIMessage \<and> r = ''model'' \<or> kind m = HumanMessage \<and> r = ''user''"
    by (auto simp: ok_def raise_def split: if_splits)
  from Cons.IH [OF loop] obtain ts where
    ts: "turns = (acc @ [\<lparr>role = r, parts = p\<rparr>]) @ ts"
    and all: "list_all2 (\<lambda>m t. (kind m = AIMessage \<and> role t = ''model'' \<or>
                              kind m = HumanMessage \<and> role t = ''user'') \<and>
                             snd (convert_to_parts U (content m)) = Inr (parts t)) ms ts"
    by auto
  show ?case
    by (rule exI [of _ "\<lparr>role = r, parts = p\<rparr> # ts"]) (use ts all rk p in auto)
qed

lemma parse_loop_roles:
  assumes "parse_loop U flag i ms raw acc = (evs, Inr turns)"
  shows "\<exists>ts. turns = acc @ ts \<and>
           list_all2 (\<lambda>m t. kind m = AIMessage \<and> role t = ''model'' \<or>
                             kind m = HumanMessage \<and> role t = ''user'')
             (if i = 0 \<and> ms \<noteq> [] \<and> kind (hd ms) = SystemMessage then tl ms else ms) ts"
  using assms
proof (induction ms arbitrary: i raw acc evs turns)
  case Nil
  then show ?case by (simp add: ok_def)
next
  case (Cons m ms)
  show ?case
  proof (cases "i = 0 \<and> kind m = SystemMessage")
    case True
    with Cons.prems have "parse_loop U flag (Suc i) ms (Some m) acc = (evs, Inr turns)"
      by (simp add: raise_def split: if_splits)
    from Cons.IH [OF this] True show ?thesis by simp
  next
    case False
    with Cons.prems obtain r p e where
      rk: "kind m = AIMessage \<and> r = ''model'' \<or> kind m = HumanMessage \<and> r = ''user''"
      and loop: "parse_loop U flag (Suc i) ms None (acc @ [\<lparr>role = r, parts = p\<rparr>]) = (e, Inr turns)"
      by (auto simp: and_then_def ok_def raise_def
               split: if_splits prod.splits sum.splits option.splits)
    from Cons.IH [OF loop] obtain ts where
      "turns = (acc @ [\<lparr>role = r, parts = p\<rparr>]) @ ts"
      "list_all2 (\<lambda>m t. kind m = AIMessage \<and> role t = ''model'' \<or>
                             kind m = HumanMessage \<and> role t = ''user'') ms ts"
      by auto
    with rk False show ?thesis
      by (intro exI [of _ "\<lparr>role = r, parts = p\<rparr> # ts"]) auto
  qed
qed

lemma parse_loop_step:
  "\<not> (i = 0 \<and> kind m = SystemMessage) \<Longrightarrow>
   parse_loop U flag i (m # rest) raw acc =
     and_then
       (if kind m = AIMessage then ok ''model''
        else if kind m = HumanMessage then ok ''user''
        else raise (unexpected_message m i))
       (\<lambda>r. and_then (convert_to_parts U (content m))
          (\<lambda>p. case raw of
                  Some sys \<Rightarrow>
                    if r = ''model'' then raise (ValueError [S system_not_followed])
                    else and_then (convert_to_parts U (content sys))
                           (\<lambda>sp. parse_loop U flag (Suc i) rest None
                                    (acc @ [\<lparr>role = r, parts = sp @ p\<rparr>]))
                | None \<Rightarrow> parse_loop U flag (Suc i) rest None (acc @ [\<lparr>role = r, parts = p\<rparr>])))"
  by auto

lemma parse_loop_unexpected:
  assumes "parse_loop U flag i xs raw acc = (evs, Inr ts)"
    and "kind m \<noteq> AIMessage" "kind m \<noteq> HumanMessage"
    and "\<not> (i + length xs = 0 \<and> kind m = SystemMessage)"
  shows "parse_loop U flag i (xs @ m # ys) raw acc =
           (evs, Inl (unexpected_message m (i + length xs)))"
  using assms
proof (induction xs arbitrary: i raw acc evs ts)
  case Nil
  then show ?case by (auto simp: ok_def raise_def and_then_def)
next
  case (Cons x xs)
  show ?case
  proof (cases "i = 0 \<and> kind x = SystemMessage")
    case True
    with Cons.prems have "parse_loop U flag (Suc i) xs (Some x) acc = (evs, Inr ts)"
      by (simp add: raise_def split: if_splits)
    from Cons.IH [OF this Cons.prems(2,3)] True Cons.prems(1) show ?thesis
      by (simp add: raise_def split: if_splits)
  next
    case False
    note IH = Cons.IH [OF _ Cons.prems(2,3), of "Suc i" None, simplified]
    from False Cons.prems(1) show ?thesis
      unfolding append_Cons parse_loop_step [OF False]
      by (auto simp: and_then_def ok_def raise_def IH
               split: if_splits prod.splits sum.splits option.splits)
  qed
qed

lemma convert_text: "convert_to_parts U (Text t) = ([Convert (Text t)], Inr [PyDict [(''text'', PyStr t)]])"
  by (simp add: convert_to_parts_def and_then_def emit_def ok_def)

text \<open>
  C1. Let the first message \<open>s\<close> be a system message and the flag be true. The system
  message is held aside and gives no turn of its own: alone it gives the empty list, and a
  successful translation of \<open>s # m # ms\<close> has one turn for \<open>m\<close> and one for each message
  of \<open>ms\<close>. Success needs \<open>m\<close> to be a human message; the first turn then has role
  \<^verbatim>\<open>user\<close> and the converted parts of \<open>s\<close> followed by those of \<open>m\<close>, and every later
  turn has exactly the converted parts of its own message, so the held parts are used
  once. When the message after \<open>s\<close> is an AI message the translation raises; the
  exception is the one that asks for a human message as soon as the content of the AI
  message converts (the content is converted before the check). The last conjunct is the
  example of the spec.
\<close>

theorem system_message_merged_once:
  assumes "kind s = SystemMessage"
  shows
    "(parse_chat_history U (s # m # ms) True = (evs, Inr turns) \<longrightarrow>
        kind m = HumanMessage \<and>
        (\<exists>sp p ts.
           snd (convert_to_parts U (content s)) = Inr sp \<and>
           snd (convert_to_parts U (content m)) = Inr p \<and>
           turns = \<lparr>role = ''user'', parts = sp @ p\<rparr> # ts \<and>
           list_all2 (\<lambda>m t. (kind m = AIMessage \<and> role t = ''model'' \<or>
                              kind m = HumanMessage \<and> role t = ''user'') \<and>
                             snd (convert_to_parts U (content m)) = Inr (parts t)) ms ts)) \<and>
     (kind h = HumanMessage \<and> convert_to_parts U (content h) = (e1, Inr p1) \<and>
      convert_to_parts U (content s) = (e2, Inr p2) \<longrightarrow>
        parse_chat_history U [s, h] True = (e1 @ e2, Inr [\<lparr>role = ''user'', parts = p2 @ p1\<rparr>])) \<and>
     (kind a = AIMessage \<longrightarrow>
        (\<exists>evs' e. parse_chat_history U (s # a # ms) True = (evs', Inl e)) \<and>
        (convert_to_parts U (content a) = (e3, Inr p3) \<longrightarrow>
           parse_chat_history U (s # a # ms) True = (e3, Inl (ValueError [S system_not_followed])))) \<and>
     parse_chat_history U [s] True = ([], Inr []) \<and>
     parse_chat_history U [be_terse, hi] True =
       ([Convert (Text ''Hi''), Convert (Text ''Be terse'')],
        Inr [\<lparr>role = ''user'',
              parts = [PyDict [(''text'', PyStr ''Be terse'')], PyDict [(''text'', PyStr ''Hi'')]]\<rparr>])"
proof (intro conjI impI)
  have unfold: "parse_chat_history U (s # x # xs) True = parse_loop U True 1 (x # xs) (Some s) []" for x xs
    using assms by (simp add: parse_chat_history_def)
  {
    assume ok: "parse_chat_history U (s # m # ms) True = (evs, Inr turns)"
    then have run: "parse_loop U True 1 (m # ms) (Some s) [] = (evs, Inr turns)"
      by (simp only: unfold)
    then obtain p sp e6 where
      user: "kind m = HumanMessage"
      and p: "snd (convert_to_parts U (content m)) = Inr p"
      and sp: "snd (convert_to_parts U (content s)) = Inr sp"
      and loop: "parse_loop U True (Suc 1) ms None ([] @ [\<lparr>role = ''user'', parts = sp @ p\<rparr>]) = (e6, Inr turns)"
      by (auto simp: and_then_def ok_def raise_def split: if_splits prod.splits sum.splits)
    from parse_loop_plain [OF loop] obtain ts where
      ts: "turns = ([] @ [\<lparr>role = ''user'', parts = sp @ p\<rparr>]) @ ts"
      "list_all2 (\<lambda>m t. (kind m = AIMessage \<and> role t = ''model'' \<or>
                              kind m = HumanMessage \<and> role t = ''user'') \<and>
                             snd (convert_to_parts U (content m)) = Inr (parts t)) ms ts"
      by auto
    show "kind m = HumanMessage" by (rule user)
    show "\<exists>sp p ts.
           snd (convert_to_parts U (content s)) = Inr sp \<and>
           snd (convert_to_parts U (content m)) = Inr p \<and>
           turns = \<lparr>role = ''user'', parts = sp @ p\<rparr> # ts \<and>
           list_all2 (\<lambda>m t. (kind m = AIMessage \<and> role t = ''model'' \<or>
                              kind m = HumanMessage \<and> role t = ''user'') \<and>
                             snd (convert_to_parts U (content m)) = Inr (parts t)) ms ts"
      using sp p ts user by auto
  }
  {
    assume h: "kind h = HumanMessage \<and> convert_to_parts U (content h) = (e1, Inr p1) \<and>
      convert_to_parts U (content s) = (e2, Inr p2)"
    then show "parse_chat_history U [s, h] True = (e1 @ e2, Inr [\<lparr>role = ''user'', parts = p2 @ p1\<rparr>])"
      by (simp add: unfold and_then_def ok_def)
  }
  {
    assume a: "kind a = AIMessage"
    show "\<exists>evs' e. parse_chat_history U (s # a # ms) True = (evs', Inl e)"
      using a by (cases "convert_to_parts U (content a)")
        (auto simp: unfold and_then_def ok_def raise_def split: sum.splits)
    {
      assume "convert_to_parts U (content a) = (e3, Inr p3)"
      with a show "parse_chat_history U (s # a # ms) True = (e3, Inl (ValueError [S system_not_followed]))"
        by (simp add: unfold and_then_def ok_def raise_def)
    }
  }
  show "parse_chat_history U [s] True = ([], Inr [])"
    using assms by (simp add: parse_chat_history_def ok_def)
  show "parse_chat_history U [be_terse, hi] True =
       ([Convert (Text ''Hi''), Convert (Text ''Be terse'')],
        Inr [\<lparr>role = ''user'',
              parts = [PyDict [(''text'', PyStr ''Be terse'')], PyDict [(''text'', PyStr ''Hi'')]]\<rparr>])"
    by (simp add: parse_chat_history_def be_terse_def hi_def convert_text and_then_def ok_def)
qed

theorem system_message_merged_once_witness:
  "kind be_terse = SystemMessage \<and> kind hi = HumanMessage \<and> kind hello = AIMessage \<and>
   convert_to_parts no_images (content hi) =
     ([Convert (Text ''Hi'')], Inr [PyDict [(''text'', PyStr ''Hi'')]]) \<and>
   convert_to_parts no_images (content be_terse) =
     ([Convert (Text ''Be terse'')], Inr [PyDict [(''text'', PyStr ''Be terse'')]]) \<and>
   convert_to_parts no_images (content hello) =
     ([Convert (Text ''Hello'')], Inr [PyDict [(''text'', PyStr ''Hello'')]]) \<and>
   parse_chat_history no_images [be_terse, hi] True =
     ([Convert (Text ''Hi''), Convert (Text ''Be terse'')],
      Inr [\<lparr>role = ''user'',
            parts = [PyDict [(''text'', PyStr ''Be terse'')], PyDict [(''text'', PyStr ''Hi'')]]\<rparr>]) \<and>
   parse_chat_history no_images [be_terse, hello, hi] True =
     ([Convert (Text ''Hello'')], Inl (ValueError [S system_not_followed]))"
  using system_message_merged_once [where s = be_terse and U = no_images and m = hi and ms = "[]"
      and evs = "[Convert (Text ''Hi''), Convert (Text ''Be terse'')]"
      and turns = "[\<lparr>role = ''user'',
         parts = [PyDict [(''text'', PyStr ''Be terse'')], PyDict [(''text'', PyStr ''Hi'')]]\<rparr>]"
      and h = hi and ?e1.0 = "[Convert (Text ''Hi'')]" and ?p1.0 = "[PyDict [(''text'', PyStr ''Hi'')]]"
      and ?e2.0 = "[Convert (Text ''Be terse'')]" and ?p2.0 = "[PyDict [(''text'', PyStr ''Be terse'')]]"]
    system_message_merged_once [where s = be_terse and U = no_images and a = hello and ms = "[hi]"
      and ?e3.0 = "[Convert (Text ''Hello'')]" and ?p3.0 = "[PyDict [(''text'', PyStr ''Hello'')]]"]
  by (simp add: be_terse_def hi_def hello_def convert_text)

text \<open>
  C9. A translation that returns has only turns of role \<^verbatim>\<open>user\<close> or \<^verbatim>\<open>model\<close>,
  one for each message after an optional leading system message, \<^verbatim>\<open>model\<close> for an AI
  message and \<^verbatim>\<open>user\<close> for a human one. A conversation \<open>ns\<close> with a message of another
  kind at a position \<open>i\<close>, other than a system message at position 0, never translates:
  an exception is raised, and when the messages before \<open>i\<close> translate on their own the
  exception is the \<^verbatim>\<open>ValueError\<close> that cites the type of \<open>ns ! i\<close> and the position \<open>i\<close>.
\<close>

theorem roles_user_or_model:
  "(parse_chat_history U ms flag = (evs, Inr turns) \<longrightarrow>
      (\<forall>t \<in> set turns. role t = ''user'' \<or> role t = ''model'') \<and>
      list_all2 (\<lambda>m t. kind m = AIMessage \<and> role t = ''model'' \<or>
                        kind m = HumanMessage \<and> role t = ''user'')
        (if ms \<noteq> [] \<and> kind (hd ms) = SystemMessage then tl ms else ms) turns) \<and>
   (i < length ns \<and> kind (ns ! i) \<noteq> AIMessage \<and> kind (ns ! i) \<noteq> HumanMessage \<and>
    \<not> (i = 0 \<and> kind (ns ! i) = SystemMessage) \<longrightarrow>
      (\<exists>evs' e. parse_chat_history U ns flag' = (evs', Inl e)) \<and>
      (parse_chat_history U (take i ns) flag' = (evs1, Inr ts) \<longrightarrow>
         parse_chat_history U ns flag' = (evs1, Inl (unexpected_message (ns ! i) i))))"
proof (intro conjI impI)
  let ?R = "\<lambda>m t. kind m = AIMessage \<and> role t = ''model'' \<or>
                   kind m = HumanMessage \<and> role t = ''user''"
  {
    assume "parse_chat_history U ms flag = (evs, Inr turns)"
    then have "parse_loop U flag 0 ms None [] = (evs, Inr turns)"
      by (simp add: parse_chat_history_def)
    from parse_loop_roles [OF this]
    show all: "list_all2 ?R (if ms \<noteq> [] \<and> kind (hd ms) = SystemMessage then tl ms else ms) turns"
      by simp
    show "\<forall>t \<in> set turns. role t = ''user'' \<or> role t = ''model''"
    proof
      fix t assume "t \<in> set turns"
      then obtain j where "j < length turns" "t = turns ! j"
        by (auto simp: in_set_conv_nth)
      with all show "role t = ''user'' \<or> role t = ''model''"
        by (auto simp: list_all2_conv_all_nth)
    qed
  }
  {
    assume bad: "i < length ns \<and> kind (ns ! i) \<noteq> AIMessage \<and> kind (ns ! i) \<noteq> HumanMessage \<and>
      \<not> (i = 0 \<and> kind (ns ! i) = SystemMessage)"
    then have split: "ns = take i ns @ ns ! i # drop (Suc i) ns"
      by (simp add: id_take_nth_drop)
    show "\<exists>evs' e. parse_chat_history U ns flag' = (evs', Inl e)"
    proof (cases "parse_chat_history U ns flag'")
      case (Pair evs' r)
      show ?thesis
      proof (cases r)
        case (Inl e)
        with Pair show ?thesis by blast
      next
        case (Inr turns')
        with Pair have "parse_loop U flag' 0 ns None [] = (evs', Inr turns')"
          by (simp add: parse_chat_history_def)
        from parse_loop_roles [OF this] have
          all: "list_all2 ?R (if ns \<noteq> [] \<and> kind (hd ns) = SystemMessage then tl ns else ns) turns'"
          by simp
        show ?thesis
        proof (cases "ns \<noteq> [] \<and> kind (hd ns) = SystemMessage")
          case True
          with bad have "0 < i" by (cases i) (auto simp: hd_conv_nth)
          with bad True have "i - 1 < length (tl ns)" "tl ns ! (i - 1) = ns ! i"
            by (auto simp: nth_tl)
          with all True bad show ?thesis
            by (auto simp: list_all2_conv_all_nth)
        next
          case False
          with all bad show ?thesis
            by (auto simp: list_all2_conv_all_nth)
        qed
      qed
    qed
    {
      assume "parse_chat_history U (take i ns) flag' = (evs1, Inr ts)"
      then have "parse_loop U flag' 0 (take i ns) None [] = (evs1, Inr ts)"
        by (simp add: parse_chat_history_def)
      from parse_loop_unexpected [OF this, of "ns ! i" "drop (Suc i) ns"] bad
      have "parse_loop U flag' 0 (take i ns @ ns ! i # drop (Suc i) ns) None [] =
              (evs1, Inl (unexpected_message (ns ! i) i))"
        by (simp add: min_def)
      with split show "parse_chat_history U ns flag' = (evs1, Inl (unexpected_message (ns ! i) i))"
        by (simp add: parse_chat_history_def)
    }
  }
qed

theorem roles_user_or_model_witness:
  "parse_chat_history no_images [be_terse, hi, hello] True =
     ([Convert (Text ''Hi''), Convert (Text ''Be terse''), Convert (Text ''Hello'')],
      Inr [\<lparr>role = ''user'',
             parts = [PyDict [(''text'', PyStr ''Be terse'')], PyDict [(''text'', PyStr ''Hi'')]]\<rparr>,
           \<lparr>role = ''model'', parts = [PyDict [(''text'', PyStr ''Hello'')]]\<rparr>]) \<and>
   (1::nat) < length [hi, tool_result, hello] \<and> kind ([hi, tool_result, hello] ! 1) = OtherMessage \<and>
   parse_chat_history no_images (take 1 [hi, tool_result, hello]) False =
     ([Convert (Text ''Hi'')], Inr [\<lparr>role = ''user'', parts = [PyDict [(''text'', PyStr ''Hi'')]]\<rparr>]) \<and>
   parse_chat_history no_images [hi, tool_result, hello] False =
     ([Convert (Text ''Hi'')], Inl (unexpected_message tool_result 1))"
  using roles_user_or_model [where U = no_images and ms = "[be_terse, hi, hello]" and flag = True
      and evs = "[Convert (Text ''Hi''), Convert (Text ''Be terse''), Convert (Text ''Hello'')]"
      and turns = "[\<lparr>role = ''user'',
             parts = [PyDict [(''text'', PyStr ''Be terse'')], PyDict [(''text'', PyStr ''Hi'')]]\<rparr>,
           \<lparr>role = ''model'', parts = [PyDict [(''text'', PyStr ''Hello'')]]\<rparr>]"
      and i = 1 and ns = "[hi, tool_result, hello]" and flag' = False
      and ?evs1.0 = "[Convert (Text ''Hi'')]"
      and ts = "[\<lparr>role = ''user'', parts = [PyDict [(''text'', PyStr ''Hi'')]]\<rparr>]"]
  by (simp add: parse_chat_history_def be_terse_def hi_def hello_def tool_result_def convert_text
        and_then_def ok_def)

text \<open>
  C10. The empty conversation, and a lone system message with the flag set, translate
  to the empty list with no event: the held message is dropped. \<^verbatim>\<open>_prepare_chat\<close> then
  pops from the empty list, so all four public operations raise \<^verbatim>\<open>IndexError\<close> before
  the backend is called.
\<close>

theorem empty_history_pop_fails:
  assumes "kind s = SystemMessage" and "convert_system_message_to_human self"
  shows
    "parse_chat_history U [] flag = ([], Inr []) \<and>
     parse_chat_history U [s] True = ([], Inr []) \<and>
     prepare_chat U cfg [] stop [] = ([], Inl (IndexError ''pop from empty list'')) \<and>
     prepare_chat U self [s] stop [] = ([], Inl (IndexError ''pop from empty list'')) \<and>
     generate B D U cfg [] stop = ([], Inl (IndexError ''pop from empty list'')) \<and>
     generate B D U self [s] stop = ([], Inl (IndexError ''pop from empty list'')) \<and>
     stream B D U cfg [] stop observer = ([], Inl (IndexError ''pop from empty list'')) \<and>
     stream B D U self [s] stop observer = ([], Inl (IndexError ''pop from empty list'')) \<and>
     agenerate B D U cfg [] stop = ([], Inl (IndexError ''pop from empty list'')) \<and>
     agenerate B D U self [s] stop = ([], Inl (IndexError ''pop from empty list'')) \<and>
     astream B D U cfg [] stop observer = ([], Inl (IndexError ''pop from empty list'')) \<and>
     astream B D U self [s] stop observer = ([], Inl (IndexError ''pop from empty list''))"
proof -
  have empty: "parse_chat_history U [] flag = ([], Inr [])" for flag
    by (simp add: parse_chat_history_def ok_def)
  have held: "parse_chat_history U [s] True = ([], Inr [])"
    using assms(1) by (simp add: parse_chat_history_def ok_def)
  have params: "\<exists>ps. prepare_params c stop [] = Inr ps" for c
    by (simp add: prepare_params_def Let_def)
  have pop1: "prepare_chat U cfg [] stop [] = ([], Inl (IndexError ''pop from empty list''))"
    using params [of cfg] by (auto simp: prepare_chat_def empty and_then_def raise_def)
  have pop2: "prepare_chat U self [s] stop [] = ([], Inl (IndexError ''pop from empty list''))"
    using params [of self] assms(2) by (auto simp: prepare_chat_def held and_then_def raise_def)
  show ?thesis
    by (simp add: empty held pop1 pop2 generate_def stream_def agenerate_def astream_def and_then_def)
qed

theorem empty_history_pop_fails_witness:
  "kind be_terse = SystemMessage \<and> convert_system_message_to_human merging \<and>
   parse_chat_history no_images [be_terse] True = ([], Inr []) \<and>
   generate unreachable no_dict no_images merging [be_terse] None =
     ([], Inl (IndexError ''pop from empty list'')) \<and>
   stream unreachable no_dict no_images merging [] None False =
     ([], Inl (IndexError ''pop from empty list''))"
  using empty_history_pop_fails [where s = be_terse and self = merging and U = no_images
      and cfg = merging and B = unreachable and D = no_dict and stop = None and observer = False]
  by (simp add: be_terse_def merging_def)

section \<open>Resilient Invoker: properties\<close>

lemma wait_exponential_eq: "1 \<le> n \<Longrightarrow> wait_exponential n = min (2 ^ n) 60"
proof -
  assume "1 \<le> n"
  then obtain m where n: "n = Suc m" by (cases n) auto
  have "(1::nat) \<le> 2 ^ Suc m" by simp
  then show ?thesis
    unfolding n wait_exponential_def multiplier_def min_seconds_def max_seconds_def
    by (simp add: max_def min_def)
qed

lemma chat_attempt_events: "fst (chat_attempt g n) = [Send n]"
  by (simp add: chat_attempt_def and_then_def emit_def ok_def raise_def
           split: sum.splits prod.splits)

lemma achat_attempt_events: "fst (achat_attempt g n) = [Send n]"
  by (simp add: achat_attempt_def and_then_def emit_def ok_def raise_def
           split: sum.splits prod.splits)

text \<open>
  The loop ends with the outcome of some attempt \<open>k\<close>: every attempt before \<open>k\<close> raised
  an exception the predicate accepts, and attempt \<open>k\<close> is the last one allowed or did not.
\<close>

lemma retrying_outcome:
  assumes "\<And>j. fst (fn j) = [Send j]" and "n \<le> max_retries"
  shows "\<exists>k. n \<le> k \<and> k \<le> max_retries \<and>
           sent (fst (retrying fn n)) = [n..<Suc k] \<and>
           slept (fst (retrying fn n)) = map wait_exponential [n..<k] \<and>
           (\<forall>j. n \<le> j \<and> j < k \<longrightarrow> (\<exists>e. snd (fn j) = Inl e \<and> retry_if e)) \<and>
           snd (retrying fn n) = snd (fn k) \<and>
           (k < max_retries \<longrightarrow> \<not> (\<exists>e. snd (fn k) = Inl e \<and> retry_if e))"
  using assms
proof (induction fn n rule: retrying.induct)
  case (1 fn n)
  have ev: "fst (fn n) = [Send n]" by (rule "1.prems"(1))
  obtain evs r where fn: "fn n = (evs, r)" by (cases "fn n")
  with ev have evs: "evs = [Send n]" by simp
  show ?case
  proof (cases "\<exists>e. r = Inl e \<and> retry_if e \<and> n < max_retries")
    case False
    then have stop: "retrying fn n = fn n"
      by (subst retrying.simps) (auto simp: fn split: sum.splits)
    from False fn "1.prems"(2) show ?thesis
      by (intro exI [of _ n]) (auto simp: stop evs)
  next
    case True
    then obtain e where e: "r = Inl e" "retry_if e" "n < max_retries" by blast
    have "\<exists>k. Suc n \<le> k \<and> k \<le> max_retries \<and>
           sent (fst (retrying fn (Suc n))) = [Suc n..<Suc k] \<and>
           slept (fst (retrying fn (Suc n))) = map wait_exponential [Suc n..<k] \<and>
           (\<forall>j. Suc n \<le> j \<and> j < k \<longrightarrow> (\<exists>e. snd (fn j) = Inl e \<and> retry_if e)) \<and>
           snd (retrying fn (Suc n)) = snd (fn k) \<and>
           (k < max_retries \<longrightarrow> \<not> (\<exists>e. snd (fn k) = Inl e \<and> retry_if e))"
      by (rule "1.IH" [OF fn [symmetric] e(1)]) (use e "1.prems"(1) in auto)
    then obtain k where k: "Suc n \<le> k" "k \<le> max_retries"
      "sent (fst (retrying fn (Suc n))) = [Suc n..<Suc k]"
      "slept (fst (retrying fn (Suc n))) = map wait_exponential [Suc n..<k]"
      "\<forall>j. Suc n \<le> j \<and> j < k \<longrightarrow> (\<exists>e. snd (fn j) = Inl e \<and> retry_if e)"
      "snd (retrying fn (Suc n)) = snd (fn k)"
      "k < max_retries \<longrightarrow> \<not> (\<exists>e. snd (fn k) = Inl e \<and> retry_if e)"
      by auto
    have go: "retrying fn n =
        ([Send n, Log WARNING [S ''Retrying in '', N (wait_exponential n),
                               S '' seconds as it raised '', E e, S ''.''],
          Sleep (wait_exponential n)] @ fst (retrying fn (Suc n)), snd (retrying fn (Suc n)))"
      using e by (subst retrying.simps) (simp add: fn evs split: prod.splits)
    have before: "\<forall>j. n \<le> j \<and> j < k \<longrightarrow> (\<exists>e. snd (fn j) = Inl e \<and> retry_if e)"
    proof (intro allI impI)
      fix j assume j: "n \<le> j \<and> j < k"
      show "\<exists>e. snd (fn j) = Inl e \<and> retry_if e"
      proof (cases "j = n")
        case True
        with fn e show ?thesis by simp
      next
        case False
        with j k(5) show ?thesis by simp
      qed
    qed
    from k(1) have upt1: "[n..<Suc k] = n # [Suc n..<Suc k]" and upt2: "[n..<k] = n # [Suc n..<k]"
      by (simp_all add: upt_conv_Cons)
    show ?thesis
      using k(1,2,6,7) before
      by (intro exI [of _ k]) (simp add: go k(3,4) upt1 upt2 del: upt_Suc)
  qed
qed

lemma invoke_outcome:
  assumes "invoke = chat_with_retry \<and> attempt = chat_attempt \<or>
           invoke = achat_with_retry \<and> attempt = achat_attempt"
  shows "\<exists>k. 1 \<le> k \<and> k \<le> 10 \<and>
           sent (fst (invoke g)) = [1..<Suc k] \<and>
           slept (fst (invoke g)) = map (\<lambda>j. min (2 ^ j) 60) [1..<k] \<and>
           (\<forall>j. 1 \<le> j \<and> j < k \<longrightarrow> (\<exists>e. snd (attempt g j) = Inl e \<and> retry_if e)) \<and>
           snd (invoke g) = snd (attempt g k) \<and>
           (k < 10 \<longrightarrow> \<not> (\<exists>e. snd (attempt g k) = Inl e \<and> retry_if e))"
proof -
  have ev: "\<And>j. fst (attempt g j) = [Send j]"
    using assms chat_attempt_events achat_attempt_events by auto
  have inv: "invoke g = retrying (attempt g) 1"
    using assms by (auto simp: chat_with_retry_def achat_with_retry_def)
  from retrying_outcome [of "attempt g" "Suc 0", OF ev] obtain k where k:
    "Suc 0 \<le> k" "k \<le> max_retries"
    "sent (fst (retrying (attempt g) (Suc 0))) = [Suc 0..<Suc k]"
    "slept (fst (retrying (attempt g) (Suc 0))) = map wait_exponential [Suc 0..<k]"
    "\<forall>j. Suc 0 \<le> j \<and> j < k \<longrightarrow> (\<exists>e. snd (attempt g j) = Inl e \<and> retry_if e)"
    "snd (retrying (attempt g) (Suc 0)) = snd (attempt g k)"
    "k < max_retries \<longrightarrow> \<not> (\<exists>e. snd (attempt g k) = Inl e \<and> retry_if e)"
    by (auto simp: max_retries_def)
  have waits: "map wait_exponential [Suc 0..<k] = map (\<lambda>j. min (2 ^ j) 60) [Suc 0..<k]"
    by (rule map_cong) (simp_all add: wait_exponential_eq)
  show ?thesis
    using k(1,2,5,6,7)
    by (intro exI [of _ k]) (simp add: inv k(3,4) waits max_retries_def del: upt_Suc)
qed

lemma attempt_transient:
  assumes "transient_failure (g j)"
  shows "\<exists>e. g j = Inl e \<and> retry_if e \<and>
           snd (chat_attempt g j) = Inl e \<and> snd (achat_attempt g j) = Inl e"
proof -
  from assms obtain c m where
    "g j = Inl (GoogleAPIError c m)"
    "c = ResourceExhausted \<or> c = ServiceUnavailable \<or> c = OtherGoogleAPIError"
    by (cases "g j" rule: transient_failure.cases) auto
  then show ?thesis
    by (auto simp: chat_attempt_def achat_attempt_def and_then_def emit_def raise_def retry_if_def)
qed

lemma attempt_success:
  assumes "g j = Inr r"
  shows "snd (chat_attempt g j) = Inr (Some r) \<and> snd (achat_attempt g j) = Inr (Some r)"
  using assms by (simp add: chat_attempt_def achat_attempt_def and_then_def emit_def ok_def)

lemma attempt_retried:
  assumes "snd (chat_attempt g j) = Inl e \<and> retry_if e \<or> snd (achat_attempt g j) = Inl e \<and> retry_if e"
  shows "\<exists>c m. g j = Inl (GoogleAPIError c m) \<and> c \<noteq> InvalidArgument"
proof (cases "g j")
  case (Inr r)
  with assms show ?thesis
    by (auto simp: chat_attempt_def achat_attempt_def and_then_def emit_def ok_def)
next
  case (Inl x)
  show ?thesis
  proof (cases x)
    case (GoogleAPIError c m)
    with Inl assms show ?thesis
      by (cases c)
        (auto simp: chat_attempt_def achat_attempt_def and_then_def emit_def ok_def raise_def
              retry_if_def split: if_splits)
  qed (use Inl assms in \<open>auto simp: chat_attempt_def achat_attempt_def and_then_def emit_def
         ok_def raise_def retry_if_def split: if_splits\<close>)
qed

text \<open>
  C2, as amended. Either invoker calls the backend at most 10 times, the calls numbered
  1 to \<open>k\<close>. After the failed attempt \<open>j\<close> it sleeps \<open>min (2 ^ j) 60\<close> seconds: 2, 4, 8, 16,
  32 and then 60; no wait exceeds 60 seconds. An attempt is followed by another only if
  the backend call raised an error of the backend API. When all 10 calls fail
  transiently the exception of the 10th is the outcome, as it was raised; when 9 fail
  transiently and the 10th returns, its result is the outcome.
\<close>

theorem retry_policy:
  fixes invoke :: "(nat \<Rightarrow> exc + 'r) \<Rightarrow> 'r option res"
  assumes "invoke = chat_with_retry \<or> invoke = achat_with_retry"
  shows
    "(\<exists>k. 1 \<le> k \<and> k \<le> 10 \<and>
          sent (fst (invoke g)) = [1..<Suc k] \<and>
          slept (fst (invoke g)) = map (\<lambda>j. min (2 ^ j) 60) [1..<k] \<and>
          (\<forall>j. 1 \<le> j \<and> j < k \<longrightarrow> (\<exists>c m. g j = Inl (GoogleAPIError c m) \<and> c \<noteq> InvalidArgument))) \<and>
     length (sent (fst (invoke g))) \<le> 10 \<and>
     (\<forall>w \<in> set (slept (fst (invoke g))). w \<le> 60) \<and>
     ((\<forall>j. 1 \<le> j \<and> j \<le> 10 \<longrightarrow> transient_failure (h j)) \<and> h 10 = Inl e \<longrightarrow>
        snd (invoke h) = Inl e \<and> sent (fst (invoke h)) = [1..<11]) \<and>
     ((\<forall>j. 1 \<le> j \<and> j < 10 \<longrightarrow> transient_failure (f j)) \<and> f 10 = Inr r \<longrightarrow>
        snd (invoke f) = Inr (Some r) \<and> sent (fst (invoke f)) = [1..<11])"
proof -
  from assms obtain attempt :: "(nat \<Rightarrow> exc + 'r) \<Rightarrow> nat \<Rightarrow> 'r option res" where a:
    "invoke = chat_with_retry \<and> attempt = chat_attempt \<or>
     invoke = achat_with_retry \<and> attempt = achat_attempt"
    by blast
  have retried: "\<exists>c m. g j = Inl (GoogleAPIError c m) \<and> c \<noteq> InvalidArgument"
    if "snd (attempt g j) = Inl e" "retry_if e" for g j e
    using a that attempt_retried [of g j e] by auto
  have transient: "\<exists>e. g j = Inl e \<and> retry_if e \<and> snd (attempt g j) = Inl e"
    if "transient_failure (g j)" for g j
    using a that attempt_transient [of g j] by auto
  have success: "snd (attempt g j) = Inr (Some r)"
    if "g j = Inr r" for g j r
    using a that attempt_success [of g j r] by auto
  have last: "k = 10"
    if "1 \<le> k" "k \<le> 10" "\<forall>j. 1 \<le> j \<and> j < 10 \<longrightarrow> transient_failure (g j)"
      "k < 10 \<longrightarrow> \<not> (\<exists>e. snd (attempt g k) = Inl e \<and> retry_if e)"
    for g k
  proof (rule ccontr)
    assume "k \<noteq> 10"
    with that(1,2) have k: "1 \<le> k \<and> k < 10" by simp
    with that(3) have "transient_failure (g k)" by blast
    from transient [of g k] this that(4) k show False by auto
  qed
  from invoke_outcome [OF a, of g] obtain k where k:
    "1 \<le> k" "k \<le> 10"
    "sent (fst (invoke g)) = [1..<Suc k]"
    "slept (fst (invoke g)) = map (\<lambda>j. min (2 ^ j) 60) [1..<k]"
    "\<forall>j. 1 \<le> j \<and> j < k \<longrightarrow> (\<exists>e. snd (attempt g j) = Inl e \<and> retry_if e)"
    by blast
  have first: "\<exists>k. 1 \<le> k \<and> k \<le> 10 \<and>
          sent (fst (invoke g)) = [1..<Suc k] \<and>
          slept (fst (invoke g)) = map (\<lambda>j. min (2 ^ j) 60) [1..<k] \<and>
          (\<forall>j. 1 \<le> j \<and> j < k \<longrightarrow> (\<exists>c m. g j = Inl (GoogleAPIError c m) \<and> c \<noteq> InvalidArgument))"
    using k retried by (intro exI [of _ k]) blast
  have count: "length (sent (fst (invoke g))) \<le> 10"
    using k(1,2) by (simp add: k(3) del: upt_Suc)
  have cap: "\<forall>w \<in> set (slept (fst (invoke g))). w \<le> 60"
    by (auto simp: k(4))
  have exhausted: "snd (invoke h) = Inl e \<and> sent (fst (invoke h)) = [1..<11]"
    if h: "(\<forall>j. 1 \<le> j \<and> j \<le> 10 \<longrightarrow> transient_failure (h j)) \<and> h 10 = Inl e"
  proof -
    from invoke_outcome [OF a, of h] obtain k where k:
      "1 \<le> k" "k \<le> 10" "sent (fst (invoke h)) = [1..<Suc k]"
      "snd (invoke h) = snd (attempt h k)"
      "k < 10 \<longrightarrow> \<not> (\<exists>e. snd (attempt h k) = Inl e \<and> retry_if e)"
      by blast
    from h have "\<forall>j. 1 \<le> j \<and> j < 10 \<longrightarrow> transient_failure (h j)" by simp
    from last [OF k(1,2) this k(5)] have k10: "k = 10" .
    from h have "\<forall>j. 1 \<le> j \<and> j \<le> 10 \<longrightarrow> transient_failure (h j)" by blast
    from spec [OF this, of 10] have "transient_failure (h 10)" by simp
    from transient [of h 10] this h have "snd (attempt h 10) = Inl e" by auto
    with k(3,4) k10 show ?thesis by simp
  qed
  have recovered: "snd (invoke f) = Inr (Some r) \<and> sent (fst (invoke f)) = [1..<11]"
    if f: "(\<forall>j. 1 \<le> j \<and> j < 10 \<longrightarrow> transient_failure (f j)) \<and> f 10 = Inr r"
  proof -
    from invoke_outcome [OF a, of f] obtain k where k:
      "1 \<le> k" "k \<le> 10" "sent (fst (invoke f)) = [1..<Suc k]"
      "snd (invoke f) = snd (attempt f k)"
      "k < 10 \<longrightarrow> \<not> (\<exists>e. snd (attempt f k) = Inl e \<and> retry_if e)"
      by blast
    from f have "\<forall>j. 1 \<le> j \<and> j < 10 \<longrightarrow> transient_failure (f j)" by simp
    from last [OF k(1,2) this k(5)] have k10: "k = 10" .
    from f success have "snd (attempt f 10) = Inr (Some r)" by simp
    with k(3,4) k10 show ?thesis by simp
  qed
  from first count cap exhausted recovered show ?thesis by blast
qed

theorem retry_policy_witness:
  "snd (chat_with_retry always_exhausted) = Inl (GoogleAPIError ResourceExhausted ''quota'') \<and>
   sent (fst (chat_with_retry always_exhausted)) = [1..<11] \<and>
   snd (chat_with_retry fails_nine_times) = Inr (Some ''done'') \<and>
   length (sent (fst (chat_with_retry fails_nine_times))) \<le> 10"
  using retry_policy [where invoke = chat_with_retry and g = fails_nine_times
      and h = always_exhausted and e = "GoogleAPIError ResourceExhausted ''quota''"
      and f = fails_nine_times and r = "''done''"]
  by (simp add: always_exhausted_def fails_nine_times_def)

text \<open>
  C2 as the spec states it has the backoff start at 1 second. The wait after the first
  failed attempt is \<open>multiplier * 2 ^ 0 = 2\<close> seconds; \<open>min_seconds = 1\<close> is only the floor
  of \<^verbatim>\<open>wait_exponential\<close>, which no wait of this policy reaches.
\<close>

theorem first_wait_is_two_seconds:
  "slept (fst (chat_with_retry fails_once)) = [2] \<and>
   slept (fst (achat_with_retry fails_once)) = [2] \<and>
   wait_exponential 1 \<noteq> 1"
  by code_simp

text \<open>
  C3. The two paths differ on a failed precondition that reports an unsupported
  location. The synchronous path raises the \<^verbatim>\<open>ValueError\<close> that points to
  \<^verbatim>\<open>ChatVertexAI\<close> after one call. The asynchronous path has no handler for it: the
  exception is an error of the backend API, so the call is made 10 times, with all nine
  waits, and the failed precondition itself reaches the caller.
\<close>

theorem unsupported_location_retried_when_async:
  "chat_with_retry unsupported_location =
     ([Send 1], Inl (ValueError [S location_not_supported])) \<and>
   sent (fst (achat_with_retry unsupported_location)) = [1, 2, 3, 4, 5, 6, 7, 8, 9, 10] \<and>
   slept (fst (achat_with_retry unsupported_location)) = [2, 4, 8, 16, 32, 60, 60, 60, 60] \<and>
   snd (achat_with_retry unsupported_location) =
     Inl (GoogleAPIError FailedPrecondition ''User location is not supported for the API use.'')"
  by code_simp

text \<open>
  C4. A failed precondition whose message does not report an unsupported location is
  caught by the synchronous path and not raised again: the decorated function returns
  \<^verbatim>\<open>None\<close>, the invoker returns it after one call, and \<^verbatim>\<open>_generate\<close> fails on the
  missing attribute of \<^verbatim>\<open>None\<close>. The asynchronous path raises the exception.
\<close>

theorem failed_precondition_swallowed:
  "chat_with_retry billing_disabled = ([Send 1], Inr None) \<and>
   generate billing_disabled_backend no_dict no_images merging [hi] None =
     ([Convert (Text ''Hi''), Send 1], Inl (AttributeError ''prompt_feedback'')) \<and>
   snd (achat_with_retry billing_disabled) =
     Inl (GoogleAPIError FailedPrecondition ''Billing is not enabled.'')"
  by code_simp

section \<open>Response Translator: properties\<close>

lemma parts_loop_all_text:
  assumes "\<forall>q \<in> set ps. text q \<noteq> None"
  shows "parts_loop ps acc =
           ([], Inr (Parts (acc @ map (\<lambda>q. PyDict [(''type'', PyStr ''text''),
                                                      (''text'', PyStr (the (text q)))]) ps)))"
  using assms by (induction ps arbitrary: acc) (auto simp: ok_def)

text \<open>
  The loop of \<^verbatim>\<open>_parts_to_content\<close> reads only the attribute \<^verbatim>\<open>text\<close>: parts that all
  carry a text, as the parts of the client do, are never refused, with or without inline
  data.
\<close>

lemma parts_with_text_never_refused:
  assumes "\<forall>q \<in> set ps. text q \<noteq> None"
  shows "\<exists>evs c. parts_to_content ps = (evs, Inr c)"
  using assms
  by (simp add: parts_to_content_def parts_loop_all_text and_then_def emit_def ok_def)

text \<open>
  C6. The content of the generation built for a candidate, through
  \<^verbatim>\<open>_response_to_result\<close>: one part with text and no inline data gives the text as a
  string; no part gives the empty string and the warning; two parts with text give the list
  of their text descriptors. A part with inline data is not refused: the loop tests only
  \<^verbatim>\<open>part.text is not None\<close>, the text of such a part is the empty string, and the part
  becomes a text descriptor with empty text, alone or after a text part. The branch that
  raises the error of unexpected part type is not taken.
\<close>

theorem inline_data_part_becomes_text:
  "response_to_result no_dict (reply_of [hello_part]) AIMessage_t HumanMessage_t ChatMessage_t
     ChatGeneration =
     ([], Inr \<lparr>generations =
                  [\<lparr>gen_type = ChatGeneration,
                    gen_message = \<lparr>msg_type = AIMessage_t, msg_content = Text ''Hello'',
                                   msg_role = None\<rparr>,
                    generation_info = []\<rparr>],
                llm_output = []\<rparr>) \<and>
   response_to_result no_dict (reply_of []) AIMessage_t HumanMessage_t ChatMessage_t
     ChatGeneration =
     ([Log WARNING [S ''Gemini produced an empty response.'']],
      Inr \<lparr>generations =
             [\<lparr>gen_type = ChatGeneration,
               gen_message = \<lparr>msg_type = AIMessage_t, msg_content = Text [], msg_role = None\<rparr>,
               generation_info = []\<rparr>],
           llm_output = []\<rparr>) \<and>
   response_to_result no_dict (reply_of [hello_part, world_part]) AIMessage_t HumanMessage_t
     ChatMessage_t ChatGeneration =
     ([], Inr \<lparr>generations =
                  [\<lparr>gen_type = ChatGeneration,
                    gen_message =
                      \<lparr>msg_type = AIMessage_t,
                       msg_content =
                         Parts [PyDict [(''type'', PyStr ''text''), (''text'', PyStr ''Hello'')],
                                PyDict [(''type'', PyStr ''text''), (''text'', PyStr ''world'')]],
                       msg_role = None\<rparr>,
                    generation_info = []\<rparr>],
                llm_output = []\<rparr>) \<and>
   response_to_result no_dict (reply_of [image_part]) AIMessage_t HumanMessage_t ChatMessage_t
     ChatGeneration =
     ([], Inr \<lparr>generations =
                  [\<lparr>gen_type = ChatGeneration,
                    gen_message =
                      \<lparr>msg_type = AIMessage_t,
                       msg_content = Parts [PyDict [(''type'', PyStr ''text''), (''text'', PyStr [])]],
                       msg_role = None\<rparr>,
                    generation_info = []\<rparr>],
                llm_output = []\<rparr>) \<and>
   response_to_result no_dict (reply_of [hello_part, image_part]) AIMessage_t HumanMessage_t
     ChatMessage_t ChatGeneration =
     ([], Inr \<lparr>generations =
                  [\<lparr>gen_type = ChatGeneration,
                    gen_message =
                      \<lparr>msg_type = AIMessage_t,
                       msg_content =
                         Parts [PyDict [(''type'', PyStr ''text''), (''text'', PyStr ''Hello'')],
                                PyDict [(''type'', PyStr ''text''), (''text'', PyStr [])]],
                       msg_role = None\<rparr>,
                    generation_info = []\<rparr>],
                llm_output = []\<rparr>)"
  by code_simp

text \<open>
  C7. For a response with no candidate the translation returns, for every outcome of
  the conversion of the prompt feedback: the last event is the warning, and the result has
  exactly one generation, of the AI message class given, with the empty string as content
  and empty \<open>generation_info\<close>.
\<close>

theorem no_candidates_one_empty_generation:
  assumes "candidates resp = []"
  shows "\<exists>evs out.
           response_to_result D resp ai_msg_t human_msg_t chat_msg_t generation_t =
             (evs @ [Log WARNING
                       [S ''Gemini produced an empty response. Continuing with empty message\<newline>Feedback: '',
                        V (feedback_value (prompt_feedback resp))]],
              Inr \<lparr>generations =
                     [\<lparr>gen_type = generation_t,
                       gen_message = \<lparr>msg_type = ai_msg_t, msg_content = Text [], msg_role = None\<rparr>,
                       generation_info = []\<rparr>],
                   llm_output = out\<rparr>) \<and>
           (evs = [] \<or> (\<exists>e. evs = [Log DEBUG [S ''Unable to convert prompt_feedback to dict: '', E e]]))"
  using assms
  by (auto simp: response_to_result_def and_then_def emit_def ok_def
           split: option.splits sum.splits)

theorem no_candidates_one_empty_generation_witness:
  "candidates blocked = [] \<and>
   response_to_result no_dict blocked AIMessage_t HumanMessage_t ChatMessage_t ChatGeneration =
     ([Log DEBUG [S ''Unable to convert prompt_feedback to dict: '', E (TypeError ''to_dict'')],
       Log WARNING
         [S ''Gemini produced an empty response. Continuing with empty message\<newline>Feedback: '',
          V (PyObj ''block_reason: SAFETY'')]],
      Inr \<lparr>generations =
             [\<lparr>gen_type = ChatGeneration,
               gen_message = \<lparr>msg_type = AIMessage_t, msg_content = Text [], msg_role = None\<rparr>,
               generation_info = []\<rparr>],
           llm_output = []\<rparr>)"
  using no_candidates_one_empty_generation [of blocked no_dict AIMessage_t HumanMessage_t
      ChatMessage_t ChatGeneration]
  by (simp add: blocked_def no_dict_def response_to_result_def and_then_def emit_def ok_def
        feedback_value_def)

section \<open>Chat Orchestrator: properties\<close>

text \<open>
  C8. The validator raises a \<^verbatim>\<open>ValueError\<close>, with no call of the backend in its
  trace, whenever the temperature or \<open>top_p\<close> is set and not in the closed interval from 0
  to 1 (NaN included), or \<open>top_k\<close> is set and not positive. With an API key at hand the
  only event is the call of \<^verbatim>\<open>genai.configure\<close>, the checks run in the order
  temperature, \<open>top_p\<close>, \<open>top_k\<close>, each with its own message, and a construction that
  passes all three and names a model succeeds. The temperature 1.5 is refused and 0.5 is
  accepted.
\<close>

theorem validate_environment_ranges:
  "(temperature vals = Some t \<and> \<not> (float_le (Fin 0) t \<and> float_le t (Fin 1)) \<or>
    top_p vals = Some p \<and> \<not> (float_le (Fin 0) p \<and> float_le p (Fin 1)) \<or>
    top_k vals = Some k \<and> k \<le> 0 \<longrightarrow>
      (\<exists>evs msg. validate_environment env vals = (evs, Inl (ValueError msg)) \<and> sent evs = [])) \<and>
   (get_from_dict_or_env vals env = Inr key \<longrightarrow>
      (temperature vals = Some t \<and> \<not> (float_le (Fin 0) t \<and> float_le t (Fin 1)) \<longrightarrow>
         validate_environment env vals =
           ([Configure key (transport vals) (client_options vals)],
            Inl (ValueError [S ''temperature must be in the range [0.0, 1.0]'']))) \<and>
      ((temperature vals = None \<or>
        (\<exists>t'. temperature vals = Some t' \<and> float_le (Fin 0) t' \<and> float_le t' (Fin 1))) \<and>
       top_p vals = Some p \<and> \<not> (float_le (Fin 0) p \<and> float_le p (Fin 1)) \<longrightarrow>
         validate_environment env vals =
           ([Configure key (transport vals) (client_options vals)],
            Inl (ValueError [S ''top_p must be in the range [0.0, 1.0]'']))) \<and>
      ((temperature vals = None \<or>
        (\<exists>t'. temperature vals = Some t' \<and> float_le (Fin 0) t' \<and> float_le t' (Fin 1))) \<and>
       (top_p vals = None \<or>
        (\<exists>p'. top_p vals = Some p' \<and> float_le (Fin 0) p' \<and> float_le p' (Fin 1))) \<and>
       top_k vals = Some k \<and> k \<le> 0 \<longrightarrow>
         validate_environment env vals =
           ([Configure key (transport vals) (client_options vals)],
            Inl (ValueError [S ''top_k must be positive'']))) \<and>
      ((temperature vals = None \<or>
        (\<exists>t'. temperature vals = Some t' \<and> float_le (Fin 0) t' \<and> float_le t' (Fin 1))) \<and>
       (top_p vals = None \<or>
        (\<exists>p'. top_p vals = Some p' \<and> float_le (Fin 0) p' \<and> float_le p' (Fin 1))) \<and>
       (top_k vals = None \<or> (\<exists>k'. top_k vals = Some k' \<and> 0 < k')) \<and>
       model vals = Some name \<longrightarrow>
         validate_environment env vals =
           ([Configure key (transport vals) (client_options vals)],
            Inr (vals\<lparr>client := Some name\<rparr>)))) \<and>
   validate_environment None (gemini_pro\<lparr>temperature := Some (Fin 1.5)\<rparr>) =
     ([Configure ''key'' None None],
      Inl (ValueError [S ''temperature must be in the range [0.0, 1.0]''])) \<and>
   validate_environment None (gemini_pro\<lparr>temperature := Some (Fin 0.5)\<rparr>) =
     ([Configure ''key'' None None],
      Inr (gemini_pro\<lparr>temperature := Some (Fin 0.5), client := Some ''gemini-pro''\<rparr>))"
proof (intro conjI impI)
  assume bad: "temperature vals = Some t \<and> \<not> (float_le (Fin 0) t \<and> float_le t (Fin 1)) \<or>
    top_p vals = Some p \<and> \<not> (float_le (Fin 0) p \<and> float_le p (Fin 1)) \<or>
    top_k vals = Some k \<and> k \<le> 0"
  show "\<exists>evs msg. validate_environment env vals = (evs, Inl (ValueError msg)) \<and> sent evs = []"
  proof (cases "get_from_dict_or_env vals env")
    case (Inl e)
    then obtain msg where "e = ValueError msg"
      by (auto simp: get_from_dict_or_env_def split: option.splits)
    with Inl show ?thesis
      by (simp add: validate_environment_def raise_def)
  next
    case (Inr api_key)
    with bad show ?thesis
      by (auto simp: validate_environment_def and_then_def emit_def raise_def
               split: option.splits)
  qed
qed (auto simp: validate_environment_def and_then_def emit_def raise_def ok_def gemini_pro_def
       get_from_dict_or_env_def)

theorem validate_environment_ranges_witness:
  "get_from_dict_or_env (gemini_pro\<lparr>top_k := Some 0\<rparr>) None = Inr ''key'' \<and>
   validate_environment None (gemini_pro\<lparr>top_k := Some 0\<rparr>) =
     ([Configure ''key'' None None], Inl (ValueError [S ''top_k must be positive''])) \<and>
   validate_environment None (gemini_pro\<lparr>top_p := Some NaN\<rparr>) =
     ([Configure ''key'' None None], Inl (ValueError [S ''top_p must be in the range [0.0, 1.0]''])) \<and>
   validate_environment None (gemini_pro\<lparr>temperature := Some (Fin 1)\<rparr>) =
     ([Configure ''key'' None None],
      Inr (gemini_pro\<lparr>temperature := Some (Fin 1), client := Some ''gemini-pro''\<rparr>))"
  using validate_environment_ranges [where vals = "gemini_pro\<lparr>top_k := Some 0\<rparr>"
      and env = None and key = "''key''" and k = 0]
    validate_environment_ranges [where vals = "gemini_pro\<lparr>top_p := Some NaN\<rparr>"
      and env = None and key = "''key''" and p = NaN]
    validate_environment_ranges [where vals = "gemini_pro\<lparr>temperature := Some (Fin 1)\<rparr>"
      and env = None and key = "''key''" and name = "''gemini-pro''"]
  by (simp add: gemini_pro_def get_from_dict_or_env_def)

end
